theory Spec2Isabelle
  imports Complex_Main "HOL-Library.Sublist" "HOL-Library.Multiset"
begin

section \<open>The product service of \<^verbatim>\<open>backend/server.py\<close>\<close>

text \<open>
  The service is a FastAPI application over one MongoDB collection. The model follows the
  source function by function. What the source leaves to its environment is made an
  explicit argument:
  \<^item> \<^verbatim>\<open>uuid.uuid4()\<close> is the argument \<open>uid\<close> of the create handler;
  \<^item> \<^verbatim>\<open>datetime.utcnow()\<close> is the argument \<open>now\<close>, an integer count of clock ticks at
    the resolution the store keeps (BSON dates hold milliseconds);
  \<^item> the collection is the list of its documents in insertion order, and every store call
    that the driver can encode is acknowledged (a store that cannot be reached is outside
    the model);
  \<^item> the order in which the store returns documents that share a sort key is the argument
    \<open>tie\<close>;
  \<^item> the regular-expression engine of the store is interpreted here for patterns made of
    ordinary ASCII characters and \<open>.\<close>; for every other pattern it is the argument
    \<open>engine\<close>.
  Strings are lists of characters (one \<open>char\<close> per code point), prices are real numbers
  (the finite values of a Python float), Python integers are \<open>int\<close>. The driver encodes
  an integer in at most 8 bytes and raises \<^verbatim>\<open>OverflowError\<close> for any other; the handlers
  catch it with every other exception and answer status 500. Strings are taken to be short
  enough for a document and a command to stay within the store's size limit of 16 MiB.
\<close>

subsection \<open>Pydantic models\<close>

text \<open>
  A key of a JSON request body is absent, \<^verbatim>\<open>null\<close>, or carries a value.
  \<open>ProductUpdate\<close> keeps the difference (\<^verbatim>\<open>dict(exclude_unset=True)\<close> drops the absent
  keys, the loop of \<^verbatim>\<open>update_product\<close> then drops the nulls).
\<close>

datatype 'a supplied = Unset | Null | Val 'a

record body =
  name_in :: "string supplied"
  description_in :: "string supplied"
  price_in :: "real supplied"
  category_in :: "string supplied"
  stock_quantity_in :: "int supplied"
  image_url_in :: "string supplied"

record ProductBase =
  name :: string
  description :: string
  price :: real
  category :: string
  stock_quantity :: int
  image_url :: "string option"

record Product = ProductBase +
  product_id :: string
  created_at :: int
  updated_at :: int

datatype error =
  ValidationError "string list"
  | NotFound string
  | InternalError

text \<open>The \<^verbatim>\<open>Field\<close> constraints of \<open>ProductBase\<close> and \<open>ProductUpdate\<close>.\<close>

definition name_ok :: "string \<Rightarrow> bool" where
  "name_ok v = (1 \<le> length v \<and> length v \<le> 200)"

definition description_ok :: "string \<Rightarrow> bool" where
  "description_ok v = (1 \<le> length v \<and> length v \<le> 1000)"

definition price_ok :: "real \<Rightarrow> bool" where
  "price_ok v = (0 < v)"

definition category_ok :: "string \<Rightarrow> bool" where
  "category_ok v = (1 \<le> length v \<and> length v \<le> 100)"

definition stock_quantity_ok :: "int \<Rightarrow> bool" where
  "stock_quantity_ok v = (0 \<le> v)"

text \<open>
  A required field (\<^verbatim>\<open>Field(..., ...)\<close>) is in error when it is absent, null or breaks
  its constraint; an optional one (\<^verbatim>\<open>Field(None, ...)\<close>) only when it carries a value
  that breaks its constraint. Pydantic reports every field in error, in declaration order.
\<close>

fun required :: "string \<Rightarrow> ('a \<Rightarrow> bool) \<Rightarrow> 'a supplied \<Rightarrow> string list" where
  "required f ok (Val v) = (if ok v then [] else [f])"
| "required f ok Null = [f]"
| "required f ok Unset = [f]"

fun optional :: "string \<Rightarrow> ('a \<Rightarrow> bool) \<Rightarrow> 'a supplied \<Rightarrow> string list" where
  "optional f ok (Val v) = (if ok v then [] else [f])"
| "optional f ok Null = []"
| "optional f ok Unset = []"

definition ProductCreate_errors :: "body \<Rightarrow> string list" where
  "ProductCreate_errors b =
     required ''name'' name_ok (name_in b) @
     required ''description'' description_ok (description_in b) @
     required ''price'' price_ok (price_in b) @
     required ''category'' category_ok (category_in b) @
     required ''stock_quantity'' stock_quantity_ok (stock_quantity_in b)"

definition ProductUpdate_errors :: "body \<Rightarrow> string list" where
  "ProductUpdate_errors b =
     optional ''name'' name_ok (name_in b) @
     optional ''description'' description_ok (description_in b) @
     optional ''price'' price_ok (price_in b) @
     optional ''category'' category_ok (category_in b) @
     optional ''stock_quantity'' stock_quantity_ok (stock_quantity_in b)"

fun non_null :: "'a supplied \<Rightarrow> 'a option" where
  "non_null (Val v) = Some v"
| "non_null Null = None"
| "non_null Unset = None"

text \<open>
  The \<open>ProductCreate\<close> object of a body; \<open>None\<close> when a required field carries no
  value (excluded by the validation that runs first).
\<close>

definition ProductCreate :: "body \<Rightarrow> ProductBase option" where
  "ProductCreate b =
     (case (name_in b, description_in b, price_in b, category_in b, stock_quantity_in b) of
        (Val n, Val d, Val p, Val c, Val q) \<Rightarrow>
          Some \<lparr>name = n, description = d, price = p, category = c, stock_quantity = q,
                image_url = non_null (image_url_in b)\<rparr>
      | _ \<Rightarrow> None)"

subsection \<open>The collection\<close>

type_synonym store = "Product list"

definition find_one :: "store \<Rightarrow> string \<Rightarrow> Product option" where
  "find_one s i = find (\<lambda>d. product_id d = i) s"

text \<open>An integer the driver can encode: a signed 64-bit value.\<close>

definition bson_int :: "int \<Rightarrow> bool" where
  "bson_int v = (- (2 ^ 63) \<le> v \<and> v < 2 ^ 63)"

text \<open>
  \<^verbatim>\<open>insert_one\<close> appends the document; \<open>None\<close> when the driver raises on encoding it,
  with nothing stored. The stock quantity is the one integer of a document.
\<close>

definition insert_one :: "store \<Rightarrow> Product \<Rightarrow> store option" where
  "insert_one s d = (if bson_int (stock_quantity d) then Some (s @ [d]) else None)"

text \<open>
  The document of \<^verbatim>\<open>{"$set": update_data}\<close>: one optional slot per key that
  \<^verbatim>\<open>update_product\<close> can put into \<open>update_data\<close>.
\<close>

record update_data =
  set_name :: "string option"
  set_description :: "string option"
  set_price :: "real option"
  set_category :: "string option"
  set_stock_quantity :: "int option"
  set_image_url :: "string option"
  set_updated_at :: "int option"

definition apply_set :: "update_data \<Rightarrow> Product \<Rightarrow> Product" where
  "apply_set u d =
     d\<lparr>name := (case set_name u of Some v \<Rightarrow> v | None \<Rightarrow> name d),
       description := (case set_description u of Some v \<Rightarrow> v | None \<Rightarrow> description d),
       price := (case set_price u of Some v \<Rightarrow> v | None \<Rightarrow> price d),
       category := (case set_category u of Some v \<Rightarrow> v | None \<Rightarrow> category d),
       stock_quantity := (case set_stock_quantity u of Some v \<Rightarrow> v | None \<Rightarrow> stock_quantity d),
       image_url := (case set_image_url u of Some v \<Rightarrow> Some v | None \<Rightarrow> image_url d),
       updated_at := (case set_updated_at u of Some v \<Rightarrow> v | None \<Rightarrow> updated_at d)\<rparr>"

text \<open>
  The store's side of \<^verbatim>\<open>update_one\<close>: it rewrites the first document with the id and
  counts the documents modified, 1 when the document changed, 0 when no document has the
  id or when every value set is the value already stored.
\<close>

fun rewrite_first :: "store \<Rightarrow> string \<Rightarrow> update_data \<Rightarrow> store \<times> nat" where
  "rewrite_first [] i u = ([], 0)"
| "rewrite_first (d # ds) i u =
     (if product_id d = i
      then (apply_set u d # ds, if apply_set u d = d then 0 else 1)
      else (case rewrite_first ds i u of (ds', n) \<Rightarrow> (d # ds', n)))"

text \<open>
  \<^verbatim>\<open>update_one\<close> returns the written collection and \<^verbatim>\<open>modified_count\<close>; \<open>None\<close>
  when the driver raises on encoding the stock quantity to set, with nothing written.
\<close>

definition update_one :: "store \<Rightarrow> string \<Rightarrow> update_data \<Rightarrow> (store \<times> nat) option" where
  "update_one s i u =
     (case set_stock_quantity u of
        None \<Rightarrow> Some (rewrite_first s i u)
      | Some v \<Rightarrow> if bson_int v then Some (rewrite_first s i u) else None)"

text \<open>\<^verbatim>\<open>delete_one\<close> removes the first document with the id and returns \<^verbatim>\<open>deleted_count\<close>.\<close>

fun delete_one :: "store \<Rightarrow> string \<Rightarrow> store \<times> nat" where
  "delete_one [] i = ([], 0)"
| "delete_one (d # ds) i =
     (if product_id d = i then (ds, 1)
      else (case delete_one ds i of (ds', n) \<Rightarrow> (d # ds', n)))"

subsection \<open>Handlers\<close>

definition product_helper :: "Product \<Rightarrow> Product" where
  "product_helper product =
     \<lparr>name = name product, description = description product, price = price product,
      category = category product, stock_quantity = stock_quantity product,
      image_url = image_url product, product_id = product_id product,
      created_at = created_at product, updated_at = updated_at product\<rparr>"

text \<open>
  \<^verbatim>\<open>create_product\<close>: an acknowledged insert always has an \<^verbatim>\<open>inserted_id\<close>, so the
  handler goes on to read the document back; a read that finds nothing makes
  \<^verbatim>\<open>product_helper(None)\<close> raise. That and an insert that raises end in the handler's
  \<^verbatim>\<open>except Exception\<close>, status 500.
\<close>

definition create_product :: "store \<Rightarrow> string \<Rightarrow> int \<Rightarrow> ProductBase \<Rightarrow> store \<times> (error + Product)" where
  "create_product s uid now product =
     (let product_dict =
            \<lparr>name = name product, description = description product, price = price product,
             category = category product, stock_quantity = stock_quantity product,
             image_url = image_url product, product_id = uid,
             created_at = now, updated_at = now\<rparr>
      in case insert_one s product_dict of
           None \<Rightarrow> (s, Inl InternalError)
         | Some s' \<Rightarrow>
             (case find_one s' uid of
                Some created_product \<Rightarrow> (s', Inr (product_helper created_product))
              | None \<Rightarrow> (s', Inl InternalError)))"

definition get_product :: "store \<Rightarrow> string \<Rightarrow> error + Product" where
  "get_product s pid =
     (case find_one s pid of
        Some product \<Rightarrow> Inr (product_helper product)
      | None \<Rightarrow> Inl (NotFound pid))"

text \<open>
  The loop of \<^verbatim>\<open>update_product\<close> over \<^verbatim>\<open>product_update.dict(exclude_unset=True)\<close>:
  a key enters \<open>update_data\<close> when it was supplied and is not null.
\<close>

definition build_update_data :: "body \<Rightarrow> update_data" where
  "build_update_data b =
     \<lparr>set_name = non_null (name_in b), set_description = non_null (description_in b),
      set_price = non_null (price_in b), set_category = non_null (category_in b),
      set_stock_quantity = non_null (stock_quantity_in b),
      set_image_url = non_null (image_url_in b), set_updated_at = None\<rparr>"

text \<open>The test \<^verbatim>\<open>if update_data:\<close> is whether the dictionary has a key.\<close>

definition is_empty :: "update_data \<Rightarrow> bool" where
  "is_empty u =
     (set_name u = None \<and> set_description u = None \<and> set_price u = None \<and>
      set_category u = None \<and> set_stock_quantity u = None \<and> set_image_url u = None \<and>
      set_updated_at u = None)"

definition update_product :: "store \<Rightarrow> int \<Rightarrow> string \<Rightarrow> body \<Rightarrow> store \<times> (error + Product)" where
  "update_product s now pid product_update =
     (case find_one s pid of
        None \<Rightarrow> (s, Inl (NotFound pid))
      | Some existing_product \<Rightarrow>
          (let upd = build_update_data product_update in
           if \<not> is_empty upd
           then (case update_one s pid (upd\<lparr>set_updated_at := Some now\<rparr>) of
                   None \<Rightarrow> (s, Inl InternalError)
                 | Some (s', modified_count) \<Rightarrow>
                     if modified_count = 1
                     then (case find_one s' pid of
                             Some updated_product \<Rightarrow> (s', Inr (product_helper updated_product))
                           | None \<Rightarrow> (s', Inl InternalError))
                     else (s', Inl InternalError))
           else (s, Inr (product_helper existing_product))))"

definition delete_product :: "store \<Rightarrow> string \<Rightarrow> store \<times> (error + unit)" where
  "delete_product s pid =
     (case delete_one s pid of
        (s', deleted_count) \<Rightarrow>
          if deleted_count = 1 then (s', Inr ()) else (s', Inl (NotFound pid)))"

subsection \<open>Routes with a request body\<close>

text \<open>
  FastAPI parses the body into the annotated model before it calls the handler, and
  answers 422 with the fields in error without calling it when the parse fails.
\<close>

definition post_product :: "store \<Rightarrow> string \<Rightarrow> int \<Rightarrow> body \<Rightarrow> store \<times> (error + Product)" where
  "post_product s uid now b =
     (if ProductCreate_errors b \<noteq> [] then (s, Inl (ValidationError (ProductCreate_errors b)))
      else (case ProductCreate b of
              Some product \<Rightarrow> create_product s uid now product
            | None \<Rightarrow> (s, Inl (ValidationError []))))"

definition put_product :: "store \<Rightarrow> int \<Rightarrow> string \<Rightarrow> body \<Rightarrow> store \<times> (error + Product)" where
  "put_product s now pid b =
     (if ProductUpdate_errors b \<noteq> [] then (s, Inl (ValidationError (ProductUpdate_errors b)))
      else update_product s now pid b)"

subsection \<open>Listing\<close>

text \<open>
  The filter \<^verbatim>\<open>{"$regex": category, "$options": "i"}\<close> is an unanchored, caseless
  regular-expression search. A pattern of ordinary characters (ASCII, not one of
  \<^verbatim>\<open>\\ ^ $ . [ ] | ( ) ? * + { }\<close>, not NUL) and dots is interpreted here: an ordinary
  character matches itself in either case, a dot matches any character but a line feed.
  Any other pattern is compiled by \<open>engine\<close>, which answers \<open>None\<close> for a pattern the
  store rejects.
\<close>

type_synonym pcre = "string \<Rightarrow> (string \<Rightarrow> bool) option"

definition metachars :: "char list" where
  "metachars = [CHR 0x5C, CHR ''^'', CHR ''$'', CHR ''.'', CHR ''['', CHR '']'', CHR ''|'',
     CHR ''('', CHR '')'', CHR ''?'', CHR ''*'', CHR ''+'', CHR ''{'', CHR ''}'']"

definition ordinary :: "char \<Rightarrow> bool" where
  "ordinary c = (c \<notin> set metachars \<and> c \<noteq> CHR 0x00 \<and> (of_char c :: nat) < 128)"

definition to_lower :: "char \<Rightarrow> char" where
  "to_lower c =
     (let n = (of_char c :: nat) in if 65 \<le> n \<and> n \<le> 90 then char_of (n + 32) else c)"

definition match_char :: "char \<Rightarrow> char \<Rightarrow> bool" where
  "match_char c d = (if c = CHR ''.'' then d \<noteq> CHR 0x0A else to_lower c = to_lower d)"

fun match_here :: "string \<Rightarrow> string \<Rightarrow> bool" where
  "match_here [] subject = True"
| "match_here (c # cs) [] = False"
| "match_here (c # cs) (d # ds) = (match_char c d \<and> match_here cs ds)"

fun search :: "string \<Rightarrow> string \<Rightarrow> bool" where
  "search pat [] = match_here pat []"
| "search pat (d # ds) = (match_here pat (d # ds) \<or> search pat ds)"

definition regex_i :: "pcre \<Rightarrow> string \<Rightarrow> (string \<Rightarrow> bool) option" where
  "regex_i engine pat =
     (if list_all (\<lambda>c. ordinary c \<or> c = CHR ''.'') pat then Some (search pat) else engine pat)"

text \<open>
  A pymongo cursor collects \<^verbatim>\<open>skip\<close>, \<^verbatim>\<open>limit\<close> and \<^verbatim>\<open>sort\<close> in any order of the
  calls; the store sorts, then skips, then limits. \<^verbatim>\<open>skip\<close> raises on a negative
  number, a limit of 0 is no limit, and a negative limit is its absolute value. The
  driver raises when it cannot encode the skip or the limit it sends.

  The store promises no order among documents with equal sort keys. Its choice is the
  argument \<open>tie\<close>, a rank of the documents: documents with equal \<open>created_at\<close> come in
  ascending rank, and in insertion order where the ranks are equal too.
\<close>

datatype query = All | Category_regex string

type_synonym tie_order = "Product \<Rightarrow> nat"

definition sort_desc :: "tie_order \<Rightarrow> Product list \<Rightarrow> Product list" where
  "sort_desc tie ds = sort_key (\<lambda>d. - created_at d) (sort_key tie ds)"

definition cursor_limit :: "int \<Rightarrow> 'a list \<Rightarrow> 'a list" where
  "cursor_limit limit ds = (if limit = 0 then ds else take (nat \<bar>limit\<bar>) ds)"

definition find_cursor ::
  "pcre \<Rightarrow> tie_order \<Rightarrow> store \<Rightarrow> query \<Rightarrow> int \<Rightarrow> int \<Rightarrow> Product list option" where
  "find_cursor engine tie s q skip limit =
     (if skip < 0 then None
      else if \<not> bson_int skip \<or> \<not> bson_int \<bar>limit\<bar> then None
      else (case q of
              All \<Rightarrow> Some (cursor_limit limit (drop (nat skip) (sort_desc tie s)))
            | Category_regex pat \<Rightarrow>
                (case regex_i engine pat of
                   None \<Rightarrow> None
                 | Some m \<Rightarrow>
                     Some (cursor_limit limit (drop (nat skip)
                            (sort_desc tie (filter (\<lambda>d. m (category d)) s)))))))"

text \<open>
  \<^verbatim>\<open>get_products\<close>: \<^verbatim>\<open>if category:\<close> holds for a category that is given and not the
  empty string. Every exception becomes status 500.
\<close>

definition get_products ::
  "pcre \<Rightarrow> tie_order \<Rightarrow> store \<Rightarrow> int \<Rightarrow> int \<Rightarrow> string option \<Rightarrow> error + Product list" where
  "get_products engine tie s skip limit category_arg =
     (let query = (case category_arg of
                     None \<Rightarrow> All
                   | Some c \<Rightarrow> if c \<noteq> [] then Category_regex c else All)
      in case find_cursor engine tie s query skip limit of
           Some products \<Rightarrow> Inr (map product_helper products)
         | None \<Rightarrow> Inl InternalError)"

definition get_products_by_category ::
  "pcre \<Rightarrow> tie_order \<Rightarrow> store \<Rightarrow> string \<Rightarrow> int \<Rightarrow> int \<Rightarrow> error + Product list" where
  "get_products_by_category engine tie s category_arg skip limit =
     (case find_cursor engine tie s (Category_regex category_arg) skip limit of
        Some products \<Rightarrow> Inr (map product_helper products)
      | None \<Rightarrow> Inl InternalError)"

subsection \<open>Sequences of requests\<close>

text \<open>The requests that write to the collection, with what the environment hands each.\<close>

datatype request =
  Create string int body
  | Update int string body
  | Delete string

fun apply_request :: "store \<Rightarrow> request \<Rightarrow> store" where
  "apply_request s (Create uid now b) = fst (post_product s uid now b)"
| "apply_request s (Update now pid b) = fst (put_product s now pid b)"
| "apply_request s (Delete pid) = fst (delete_product s pid)"



subsection \<open>The data model's invariant\<close>

definition constraints_ok :: "Product \<Rightarrow> bool" where
  "constraints_ok p =
     (1 \<le> length (name p) \<and> length (name p) \<le> 200 \<and>
      1 \<le> length (description p) \<and> length (description p) \<le> 1000 \<and>
      0 < price p \<and>
      1 \<le> length (category p) \<and> length (category p) \<le> 100 \<and>
      0 \<le> stock_quantity p)"

definition store_inv :: "store \<Rightarrow> bool" where
  "store_inv s =
     (list_all (\<lambda>p. constraints_ok p \<and> created_at p \<le> updated_at p) s \<and>
      distinct (map product_id s))"

subsection \<open>The specification's category filter\<close>


subsection \<open>Example data\<close>

text \<open>The product of the specification's scenario, as a request body and as stored.\<close>

definition mug_body :: body where
  "mug_body = \<lparr>name_in = Val ''Mug'', description_in = Val ''Ceramic mug'',
     price_in = Val (999 / 100), category_in = Val ''Kitchen'', stock_quantity_in = Val 100,
     image_url_in = Unset\<rparr>"

definition mug :: Product where
  "mug = \<lparr>name = ''Mug'', description = ''Ceramic mug'', price = 999 / 100,
     category = ''Kitchen'', stock_quantity = 100, image_url = None, product_id = ''p1'',
     created_at = 1000, updated_at = 1000\<rparr>"

text \<open>A body that supplies at most the price.\<close>

definition only_price :: "real supplied \<Rightarrow> body" where
  "only_price p = \<lparr>name_in = Unset, description_in = Unset, price_in = p,
     category_in = Unset, stock_quantity_in = Unset, image_url_in = Unset\<rparr>"

text \<open>Two more stored products, and an engine that rejects every pattern handed to it.\<close>

definition kettle :: Product where
  "kettle = \<lparr>name = ''Kettle'', description = ''Steel kettle'', price = 25,
     category = ''kitchenware'', stock_quantity = 3, image_url = None, product_id = ''p2'',
     created_at = 2000, updated_at = 2000\<rparr>"

definition lamp :: Product where
  "lamp = \<lparr>name = ''Lamp'', description = ''Desk lamp'', price = 30,
     category = ''Lighting'', stock_quantity = 7, image_url = None, product_id = ''p3'',
     created_at = 1500, updated_at = 1500\<rparr>"

definition no_engine :: pcre where
  "no_engine pat = None"

text \<open>Two tie orders: by insertion, and by name length.\<close>

definition by_insertion :: tie_order where
  "by_insertion d = 0"



section \<open>Basic facts\<close>

lemma product_helper_same [simp]: "product_helper p = p"
  by (simp add: product_helper_def)

lemma find_one_None_iff: "find_one s i = None \<longleftrightarrow> i \<notin> product_id ` set s"
  by (auto simp: find_one_def find_None_iff)

lemma find_one_Some_id: "find_one s i = Some p \<Longrightarrow> product_id p = i \<and> p \<in> set s"
  by (auto simp: find_one_def find_Some_iff)

lemma find_one_append:
  "find_one (s @ t) i = (case find_one s i of Some p \<Rightarrow> Some p | None \<Rightarrow> find_one t i)"
  by (induction s) (auto simp: find_one_def)

lemma rewrite_first_absent: "i \<notin> product_id ` set s \<Longrightarrow> rewrite_first s i u = (s, 0)"
  by (induction s) auto

lemma update_one_cases:
  "update_one s i u = None \<or> update_one s i u = Some (rewrite_first s i u)"
  by (simp add: update_one_def split: option.splits)

lemma update_one_encoded:
  "\<forall>v. set_stock_quantity u = Some v \<longrightarrow> bson_int v \<Longrightarrow>
     update_one s i u = Some (rewrite_first s i u)"
  by (simp add: update_one_def split: option.splits)


lemma delete_one_absent: "i \<notin> product_id ` set s \<Longrightarrow> delete_one s i = (s, 0)"
  by (induction s) auto

lemma required_Nil_iff: "required f ok x = [] \<longleftrightarrow> (\<exists>v. x = Val v \<and> ok v)"
  by (cases x) auto

lemma optional_Nil_iff: "optional f ok x = [] \<longleftrightarrow> (\<forall>v. x = Val v \<longrightarrow> ok v)"
  by (cases x) auto

lemma find_one_split:
  "find_one s i = Some p \<Longrightarrow>
     \<exists>pre post. s = pre @ p # post \<and> i \<notin> product_id ` set pre \<and> product_id p = i"
proof (induction s)
  case Nil
  then show ?case by (simp add: find_one_def)
next
  case (Cons d ds)
  show ?case
  proof (cases "product_id d = i")
    case True
    with Cons.prems have "d = p" by (simp add: find_one_def)
    with True have "d # ds = [] @ p # ds \<and> i \<notin> product_id ` set [] \<and> product_id p = i"
      by simp
    then show ?thesis by blast
  next
    case False
    with Cons.prems have "find_one ds i = Some p" by (simp add: find_one_def)
    with Cons.IH obtain pre post where
      "ds = pre @ p # post" "i \<notin> product_id ` set pre" "product_id p = i" by blast
    with False have "d # ds = (d # pre) @ p # post \<and> i \<notin> product_id ` set (d # pre) \<and> product_id p = i"
      by auto
    then show ?thesis by blast
  qed
qed

lemma rewrite_first_split:
  "i \<notin> product_id ` set pre \<Longrightarrow> product_id p = i \<Longrightarrow>
     rewrite_first (pre @ p # post) i u =
       (pre @ apply_set u p # post, if apply_set u p = p then 0 else 1)"
  by (induction pre) auto

lemma product_id_apply_set [simp]: "product_id (apply_set u d) = product_id d"
  by (simp add: apply_set_def)

lemma find_one_middle:
  "i \<notin> product_id ` set pre \<Longrightarrow> product_id p = i \<Longrightarrow> find_one (pre @ p # post) i = Some p"
  by (simp add: find_one_append find_one_None_iff [symmetric]) (simp add: find_one_def)

lemma required_set: "g \<in> set (required f ok x) \<longleftrightarrow> g = f \<and> (\<forall>v. x = Val v \<longrightarrow> \<not> ok v)"
  by (cases x) auto

lemma delete_one_ids:
  "map product_id (fst (delete_one s i)) = remove1 i (map product_id s)"
  by (induction s) (auto split: prod.splits)


lemma delete_one_subset: "set (fst (delete_one s i)) \<subseteq> set s"
  by (induction s) (auto split: prod.splits)


lemma fst_create_product:
  "fst (create_product s uid now pr) =
     (if bson_int (stock_quantity pr)
      then s @ [\<lparr>name = name pr, description = description pr, price = price pr,
            category = category pr, stock_quantity = stock_quantity pr,
            image_url = image_url pr, product_id = uid, created_at = now, updated_at = now\<rparr>]
      else s)"
  by (simp add: create_product_def insert_one_def Let_def split: option.splits)

lemma fst_update_product:
  "fst (update_product s now pid b) =
     (if find_one s pid \<noteq> None \<and> \<not> is_empty (build_update_data b) \<and>
         update_one s pid ((build_update_data b)\<lparr>set_updated_at := Some now\<rparr>) \<noteq> None
      then fst (rewrite_first s pid ((build_update_data b)\<lparr>set_updated_at := Some now\<rparr>))
      else s)"
proof -
  let ?u = "(build_update_data b)\<lparr>set_updated_at := Some now\<rparr>"
  from update_one_cases [of s pid ?u] show ?thesis
  proof
    assume "update_one s pid ?u = None"
    then show ?thesis
      by (simp add: update_product_def Let_def split: option.splits)
  next
    assume "update_one s pid ?u = Some (rewrite_first s pid ?u)"
    then show ?thesis
      by (simp add: update_product_def Let_def split: option.splits prod.splits)
  qed
qed

lemma fst_delete_product: "fst (delete_product s pid) = fst (delete_one s pid)"
  by (simp add: delete_product_def split: prod.splits)

lemma ProductCreate_valid:
  assumes "ProductCreate_errors b = []"
  shows "\<exists>pr. ProductCreate b = Some pr \<and> name_ok (name pr) \<and> description_ok (description pr) \<and>
           price_ok (price pr) \<and> category_ok (category pr) \<and> stock_quantity_ok (stock_quantity pr)"
proof -
  from assms obtain n d p c q where
    "name_in b = Val n" "name_ok n" "description_in b = Val d" "description_ok d"
    "price_in b = Val p" "price_ok p" "category_in b = Val c" "category_ok c"
    "stock_quantity_in b = Val q" "stock_quantity_ok q"
    by (auto simp: ProductCreate_errors_def required_Nil_iff)
  then show ?thesis by (simp add: ProductCreate_def)
qed



lemma store_inv_append:
  "store_inv (s @ [d]) \<longleftrightarrow>
     store_inv s \<and> constraints_ok d \<and> created_at d \<le> updated_at d \<and>
     product_id d \<notin> product_id ` set s"
  by (auto simp: store_inv_def)

lemma store_inv_replace:
  assumes "store_inv (pre @ p # post)" and "product_id p' = product_id p"
    and "constraints_ok p'" and "created_at p' \<le> updated_at p'"
  shows "store_inv (pre @ p' # post)"
  using assms by (simp add: store_inv_def)

lemma store_inv_delete_one: "store_inv s \<Longrightarrow> store_inv (fst (delete_one s i))"
proof -
  assume inv: "store_inv s"
  have "list_all P s \<Longrightarrow> list_all P (fst (delete_one s i))" for P
    using delete_one_subset [of s i] by (auto simp: list_all_iff)
  moreover have "distinct (map product_id (fst (delete_one s i)))"
    using inv by (simp add: delete_one_ids store_inv_def)
  ultimately show ?thesis using inv by (simp add: store_inv_def)
qed

lemma constraints_ok_alt:
  "constraints_ok p \<longleftrightarrow>
     name_ok (name p) \<and> description_ok (description p) \<and> price_ok (price p) \<and>
     category_ok (category p) \<and> stock_quantity_ok (stock_quantity p)"
  by (simp add: constraints_ok_def name_ok_def description_ok_def price_ok_def category_ok_def
      stock_quantity_ok_def)

lemma set_value_ok:
  "optional f ok x = [] \<Longrightarrow> ok old \<Longrightarrow> ok (case non_null x of Some v \<Rightarrow> v | None \<Rightarrow> old)"
  by (cases x) (auto split: if_splits)

lemma constraints_ok_apply_set:
  assumes "ProductUpdate_errors b = []" and "constraints_ok p"
  shows "constraints_ok (apply_set ((build_update_data b)\<lparr>set_updated_at := t\<rparr>) p)"
proof -
  from assms(1) have
    "optional ''name'' name_ok (name_in b) = []"
    "optional ''description'' description_ok (description_in b) = []"
    "optional ''price'' price_ok (price_in b) = []"
    "optional ''category'' category_ok (category_in b) = []"
    "optional ''stock_quantity'' stock_quantity_ok (stock_quantity_in b) = []"
    by (simp_all add: ProductUpdate_errors_def)
  with assms(2) show ?thesis
    by (simp add: constraints_ok_alt apply_set_def build_update_data_def set_value_ok)
qed

lemma map_product_helper [simp]: "map product_helper ds = ds"
  by (induction ds) simp_all








section \<open>Create, then read\<close>




section \<open>Requests for an id that is not stored\<close>

text \<open>
  Claim C2, as amended. For an id that no stored product has, reading and deleting fail
  with \<open>NotFound\<close>, and so does an update whose body satisfies the field constraints
  (every value it supplies is within its bounds); the collection is left as it was.
\<close>

theorem absent_id_not_found:
  assumes absent: "pid \<notin> product_id ` set s"
    and "\<forall>v. name_in b = Val v \<longrightarrow> 1 \<le> length v \<and> length v \<le> 200"
    and "\<forall>v. description_in b = Val v \<longrightarrow> 1 \<le> length v \<and> length v \<le> 1000"
    and "\<forall>v. price_in b = Val v \<longrightarrow> 0 < v"
    and "\<forall>v. category_in b = Val v \<longrightarrow> 1 \<le> length v \<and> length v \<le> 100"
    and "\<forall>v. stock_quantity_in b = Val v \<longrightarrow> 0 \<le> v"
  shows "get_product s pid = Inl (NotFound pid) \<and>
         put_product s now pid b = (s, Inl (NotFound pid)) \<and>
         delete_product s pid = (s, Inl (NotFound pid))"
proof -
  have none: "find_one s pid = None"
    using absent by (simp add: find_one_None_iff)
  have valid: "ProductUpdate_errors b = []"
    using assms(2-6)
    by (simp add: ProductUpdate_errors_def optional_Nil_iff name_ok_def description_ok_def
        price_ok_def category_ok_def stock_quantity_ok_def)
  have "get_product s pid = Inl (NotFound pid)"
    using none by (simp add: get_product_def)
  moreover have "put_product s now pid b = (s, Inl (NotFound pid))"
    using none valid by (simp add: put_product_def update_product_def)
  moreover have "delete_product s pid = (s, Inl (NotFound pid))"
    using absent by (simp add: delete_product_def delete_one_absent)
  ultimately show ?thesis by simp
qed

theorem absent_id_not_found_witness:
  "get_product [mug] ''p2'' = Inl (NotFound ''p2'') \<and>
   put_product [mug] 2000 ''p2'' (only_price (Val 5)) = ([mug], Inl (NotFound ''p2'')) \<and>
   delete_product [mug] ''p2'' = ([mug], Inl (NotFound ''p2''))"
  using absent_id_not_found [of "''p2''" "[mug]" "only_price (Val 5)" 2000]
  by (simp add: mug_def only_price_def)

text \<open>
  The claim as written fails for a body that breaks a constraint: the body is parsed
  before the handler looks the id up, so the answer is the validation error.
\<close>

theorem absent_id_invalid_body:
  "put_product [mug] 2000 ''p2'' (only_price (Val (- 1))) =
     ([mug], Inl (ValidationError [''price'']))"
  by (simp add: put_product_def ProductUpdate_errors_def only_price_def price_ok_def)

section \<open>An update that supplies no value\<close>

text \<open>
  Claim C5. For a stored product, an update whose body carries no value (each key absent
  or null) succeeds and returns the stored product as it is; the collection, and with it
  \<open>updated_at\<close>, is unchanged.
\<close>

theorem update_without_fields:
  assumes "find_one s pid = Some p"
    and "\<forall>v. name_in b \<noteq> Val v" and "\<forall>v. description_in b \<noteq> Val v"
    and "\<forall>v. price_in b \<noteq> Val v" and "\<forall>v. category_in b \<noteq> Val v"
    and "\<forall>v. stock_quantity_in b \<noteq> Val v" and "\<forall>v. image_url_in b \<noteq> Val v"
  shows "put_product s now pid b = (s, Inr p)"
proof -
  have nn: "non_null x = None" if "\<forall>v. x \<noteq> Val v" for x :: "'a supplied"
    using that by (cases x) auto
  have opt: "optional f ok x = []" if "\<forall>v. x \<noteq> Val v" for x :: "'a supplied" and f ok
    using that by (cases x) auto
  have "ProductUpdate_errors b = []"
    using assms(2-6) by (simp add: ProductUpdate_errors_def opt)
  moreover have "is_empty (build_update_data b)"
    using assms(2-7) by (simp add: is_empty_def build_update_data_def nn)
  ultimately show ?thesis
    using assms(1) by (simp add: put_product_def update_product_def)
qed

theorem update_without_fields_witness:
  "put_product [mug] 2000 ''p1'' (only_price Null) = ([mug], Inr mug)"
  using update_without_fields [of "[mug]" "''p1''" mug "only_price Null" 2000]
  by (simp add: find_one_def mug_def only_price_def)

section \<open>Validation of a create request\<close>

text \<open>
  Claim C6. A create request in which a required field is absent, null or out of its
  bounds (name 1 to 200 characters, description 1 to 1000, price above 0, category 1 to
  100, stock quantity at least 0) fails with \<open>ValidationError\<close>; the error names exactly
  the fields in error, and the collection is left as it was. For a body that is valid but
  for the price \<open>-1\<close> the error names \<open>price\<close>.
\<close>

theorem invalid_create_rejected:
  assumes "(\<forall>v. name_in b = Val v \<longrightarrow> length v < 1 \<or> 200 < length v) \<or>
           (\<forall>v. description_in b = Val v \<longrightarrow> length v < 1 \<or> 1000 < length v) \<or>
           (\<forall>v. price_in b = Val v \<longrightarrow> v \<le> 0) \<or>
           (\<forall>v. category_in b = Val v \<longrightarrow> length v < 1 \<or> 100 < length v) \<or>
           (\<forall>v. stock_quantity_in b = Val v \<longrightarrow> v < 0)"
  shows "post_product s uid now b = (s, Inl (ValidationError (ProductCreate_errors b))) \<and>
           (''name'' \<in> set (ProductCreate_errors b) \<longleftrightarrow>
              (\<forall>v. name_in b = Val v \<longrightarrow> length v < 1 \<or> 200 < length v)) \<and>
           (''description'' \<in> set (ProductCreate_errors b) \<longleftrightarrow>
              (\<forall>v. description_in b = Val v \<longrightarrow> length v < 1 \<or> 1000 < length v)) \<and>
           (''price'' \<in> set (ProductCreate_errors b) \<longleftrightarrow>
              (\<forall>v. price_in b = Val v \<longrightarrow> v \<le> 0)) \<and>
           (''category'' \<in> set (ProductCreate_errors b) \<longleftrightarrow>
              (\<forall>v. category_in b = Val v \<longrightarrow> length v < 1 \<or> 100 < length v)) \<and>
           (''stock_quantity'' \<in> set (ProductCreate_errors b) \<longleftrightarrow>
              (\<forall>v. stock_quantity_in b = Val v \<longrightarrow> v < 0))"
proof -
  let ?fields = "ProductCreate_errors b"
  have n: "''name'' \<in> set ?fields \<longleftrightarrow> (\<forall>v. name_in b = Val v \<longrightarrow> length v < 1 \<or> 200 < length v)"
    by (simp add: ProductCreate_errors_def required_set name_ok_def not_le del: One_nat_def less_one)
  have d: "''description'' \<in> set ?fields \<longleftrightarrow>
      (\<forall>v. description_in b = Val v \<longrightarrow> length v < 1 \<or> 1000 < length v)"
    by (simp add: ProductCreate_errors_def required_set description_ok_def not_le del: One_nat_def less_one)
  have p: "''price'' \<in> set ?fields \<longleftrightarrow> (\<forall>v. price_in b = Val v \<longrightarrow> v \<le> 0)"
    by (simp add: ProductCreate_errors_def required_set price_ok_def not_less)
  have c: "''category'' \<in> set ?fields \<longleftrightarrow>
      (\<forall>v. category_in b = Val v \<longrightarrow> length v < 1 \<or> 100 < length v)"
    by (simp add: ProductCreate_errors_def required_set category_ok_def not_le del: One_nat_def less_one)
  have q: "''stock_quantity'' \<in> set ?fields \<longleftrightarrow> (\<forall>v. stock_quantity_in b = Val v \<longrightarrow> v < 0)"
    by (simp add: ProductCreate_errors_def required_set stock_quantity_ok_def not_le)
  from assms have "''name'' \<in> set ?fields \<or> ''description'' \<in> set ?fields \<or>
      ''price'' \<in> set ?fields \<or> ''category'' \<in> set ?fields \<or>
      ''stock_quantity'' \<in> set ?fields"
    unfolding n d p c q .
  then have "?fields \<noteq> []" by auto
  then have "post_product s uid now b = (s, Inl (ValidationError ?fields))"
    by (simp add: post_product_def)
  with n d p c q show ?thesis by blast
qed

theorem invalid_create_rejected_witness:
  "post_product [mug] ''p2'' 2000 (mug_body\<lparr>price_in := Val (- 1)\<rparr>) =
     ([mug], Inl (ValidationError [''price''])) \<and>
   ''price'' \<in> set (ProductCreate_errors (mug_body\<lparr>price_in := Val (- 1)\<rparr>))"
  using invalid_create_rejected [of "mug_body\<lparr>price_in := Val (- 1)\<rparr>" "[mug]" "''p2''" 2000]
  by (simp add: ProductCreate_errors_def mug_body_def name_ok_def description_ok_def
      price_ok_def category_ok_def stock_quantity_ok_def)

section \<open>An update of the price\<close>

text \<open>
  Claim C4, as amended. For a stored product, a price above 0 and a clock reading later
  than the product's \<open>updated_at\<close>, an update that supplies only the price succeeds and
  rewrites the stored product in place with the new price and with \<open>updated_at\<close> set to
  the clock reading, which is therefore strictly greater than before; the product's other
  fields and the other documents are unchanged.
\<close>

theorem update_price_only:
  assumes "find_one s pid = Some p" and "0 < v" and "updated_at p < now"
  shows "\<exists>pre post. s = pre @ p # post \<and> pid \<notin> product_id ` set pre \<and>
           put_product s now pid (only_price (Val v)) =
             (pre @ p\<lparr>price := v, updated_at := now\<rparr> # post,
              Inr (p\<lparr>price := v, updated_at := now\<rparr>)) \<and>
           updated_at p < updated_at (p\<lparr>price := v, updated_at := now\<rparr>)"
proof -
  let ?u = "(build_update_data (only_price (Val v)))\<lparr>set_updated_at := Some now\<rparr>"
  let ?p' = "p\<lparr>price := v, updated_at := now\<rparr>"
  from assms(1) obtain pre post where
    s: "s = pre @ p # post" and pre: "pid \<notin> product_id ` set pre" and p: "product_id p = pid"
    using find_one_split by blast
  have ap: "apply_set ?u p = ?p'"
    by (simp add: apply_set_def build_update_data_def only_price_def)
  have changed: "?p' \<noteq> p"
  proof
    assume "?p' = p"
    then have "updated_at ?p' = updated_at p" by simp
    with assms(3) show False by simp
  qed
  have "update_one s pid ?u = Some (rewrite_first s pid ?u)"
    by (rule update_one_encoded) (simp add: build_update_data_def only_price_def)
  then have upd: "update_one s pid ?u = Some (pre @ ?p' # post, 1)"
    using rewrite_first_split [OF pre p, of post ?u] changed by (simp add: s ap)
  have found: "find_one (pre @ ?p' # post) pid = Some ?p'"
    using find_one_middle [OF pre, of ?p' post] p by simp
  have valid: "ProductUpdate_errors (only_price (Val v)) = []"
    using assms(2) by (simp add: ProductUpdate_errors_def only_price_def price_ok_def)
  have nonempty: "\<not> is_empty (build_update_data (only_price (Val v)))"
    by (simp add: is_empty_def build_update_data_def only_price_def)
  have "put_product s now pid (only_price (Val v)) = (pre @ ?p' # post, Inr ?p')"
    using assms(1) valid nonempty upd found
    by (simp add: put_product_def update_product_def)
  with s pre assms(3) show ?thesis by auto
qed

theorem update_price_only_witness:
  "put_product [mug] 2000 ''p1'' (only_price (Val 5)) =
     ([mug\<lparr>price := 5, updated_at := 2000\<rparr>], Inr (mug\<lparr>price := 5, updated_at := 2000\<rparr>))"
proof -
  have "find_one [mug] ''p1'' = Some mug" by (simp add: find_one_def mug_def)
  moreover have "(0::real) < 5" and "updated_at mug < 2000" by (simp_all add: mug_def)
  ultimately obtain pre post where
    "[mug] = pre @ mug # post"
    "put_product [mug] 2000 ''p1'' (only_price (Val 5)) =
       (pre @ mug\<lparr>price := 5, updated_at := 2000\<rparr> # post,
        Inr (mug\<lparr>price := 5, updated_at := 2000\<rparr>))"
    using update_price_only [of "[mug]" "''p1''" mug 5 2000] by blast
  moreover from this(1) have "pre = [] \<and> post = []"
    by (cases pre) auto
  ultimately show ?thesis by simp
qed

text \<open>
  The claim as written fails when the update is served at a clock reading equal to the
  stored \<open>updated_at\<close> (here the tick of the create): the price changes and
  \<open>updated_at\<close> stays.
\<close>

theorem update_same_tick:
  "put_product [mug] 1000 ''p1'' (only_price (Val 5)) =
     ([mug\<lparr>price := 5\<rparr>], Inr (mug\<lparr>price := 5\<rparr>)) \<and>
   updated_at (mug\<lparr>price := 5\<rparr>) = updated_at mug"
  by (simp add: put_product_def update_product_def ProductUpdate_errors_def only_price_def
      price_ok_def find_one_def build_update_data_def is_empty_def apply_set_def mug_def
      update_one_def)

section \<open>An update the store reports as not applied\<close>




section \<open>Delete, then read\<close>



section \<open>The invariant of the collection\<close>

text \<open>
  Claim C7, as amended. Every stored product satisfies the field constraints and has
  \<open>created_at \<le> updated_at\<close>, and ids are unique: this invariant is preserved by a
  delete, by a create served with an id that no stored product has, and by an update
  served at a clock reading not earlier than the \<open>created_at\<close> of the product it
  addresses.
\<close>

theorem requests_preserve_invariant:
  assumes inv: "store_inv s"
    and fresh: "\<forall>uid now b. r = Create uid now b \<longrightarrow> uid \<notin> product_id ` set s"
    and clock: "\<forall>now pid b p. r = Update now pid b \<longrightarrow> find_one s pid = Some p \<longrightarrow>
      created_at p \<le> now"
  shows "store_inv (apply_request s r)"
proof (cases r)
  case (Create uid now b)
  show ?thesis
  proof (cases "ProductCreate_errors b = []")
    case True
    then obtain pr where pr: "ProductCreate b = Some pr" "name_ok (name pr)"
      "description_ok (description pr)" "price_ok (price pr)" "category_ok (category pr)"
      "stock_quantity_ok (stock_quantity pr)"
      using ProductCreate_valid by blast
    from fresh Create have "uid \<notin> product_id ` set s" by simp
    with inv pr True Create show ?thesis
      by (simp add: post_product_def fst_create_product store_inv_append constraints_ok_def
          name_ok_def description_ok_def price_ok_def category_ok_def stock_quantity_ok_def)
  next
    case False
    with inv Create show ?thesis by (simp add: post_product_def)
  qed
next
  case (Update now pid b)
  let ?u = "(build_update_data b)\<lparr>set_updated_at := Some now\<rparr>"
  show ?thesis
  proof (cases "ProductUpdate_errors b = [] \<and> find_one s pid \<noteq> None \<and>
      \<not> is_empty (build_update_data b) \<and> update_one s pid ?u \<noteq> None")
    case True
    from True obtain p where found: "find_one s pid = Some p" by auto
    then obtain pre post where
      s: "s = pre @ p # post" and pre: "pid \<notin> product_id ` set pre" and p: "product_id p = pid"
      using find_one_split by blast
    have s': "apply_request s r = pre @ apply_set ?u p # post"
      using True Update rewrite_first_split [OF pre p, of post ?u]
      by (simp add: put_product_def fst_update_product s)
    have "constraints_ok p"
      using inv by (simp add: s store_inv_def)
    with True have "constraints_ok (apply_set ?u p)"
      using constraints_ok_apply_set by blast
    moreover from clock Update found have "created_at p \<le> now" by blast
    then have "created_at (apply_set ?u p) \<le> updated_at (apply_set ?u p)"
      by (simp add: apply_set_def)
    ultimately have "store_inv (pre @ apply_set ?u p # post)"
      using inv store_inv_replace [of pre p post "apply_set ?u p"] by (simp add: s)
    then show ?thesis by (simp only: s')
  next
    case False
    with Update have "apply_request s r = s"
      by (auto simp: put_product_def fst_update_product)
    with inv show ?thesis by simp
  qed
next
  case (Delete pid)
  with inv show ?thesis
    by (simp add: fst_delete_product store_inv_delete_one)
qed

theorem requests_preserve_invariant_witness:
  "store_inv (apply_request [mug] (Create ''p2'' 3000 mug_body)) \<and>
   store_inv (apply_request [mug] (Update 4000 ''p1'' (only_price (Val 5)))) \<and>
   store_inv (apply_request [mug] (Delete ''p1''))"
proof -
  have inv: "store_inv [mug]"
    by (simp add: store_inv_def constraints_ok_def mug_def)
  have "store_inv (apply_request [mug] (Create ''p2'' 3000 mug_body))"
    using requests_preserve_invariant [OF inv, of "Create ''p2'' 3000 mug_body"]
    by (simp add: mug_def)
  moreover have "store_inv (apply_request [mug] (Update 4000 ''p1'' (only_price (Val 5))))"
    using requests_preserve_invariant [OF inv, of "Update 4000 ''p1'' (only_price (Val 5))"]
    by (simp add: find_one_def mug_def)
  moreover have "store_inv (apply_request [mug] (Delete ''p1''))"
    using requests_preserve_invariant [OF inv, of "Delete ''p1''"] by simp
  ultimately show ?thesis by simp
qed

text \<open>
  The claim as written fails: the handlers take the timestamp and the id as the
  environment hands them. An update served at a clock reading earlier than the product's
  \<open>created_at\<close> stores \<open>updated_at < created_at\<close>, and a create served with a stored id
  stores a second product with that id.
\<close>

theorem invariant_broken:
  "store_inv [mug] \<and>
   \<not> store_inv (apply_request [mug] (Update 500 ''p1'' (only_price (Val 5)))) \<and>
   \<not> store_inv (apply_request [mug] (Create ''p1'' 3000 mug_body))"
  by code_simp

section \<open>Listing\<close>




section \<open>The two category queries\<close>

text \<open>
  Claim C10. For a category that is not the empty string, the category route and the
  listing route given that category return the same result, for every collection, skip
  and limit: the same products in the same order, or both the error of status 500.
\<close>

theorem category_routes_agree:
  assumes "c \<noteq> []"
  shows "get_products_by_category engine tie s c skip limit =
         get_products engine tie s skip limit (Some c)"
  using assms by (simp add: get_products_by_category_def get_products_def)

theorem category_routes_agree_witness:
  "get_products_by_category no_engine by_insertion [mug, kettle, lamp] ''kit'' 0 50 =
     Inr [kettle, mug] \<and>
   get_products no_engine by_insertion [mug, kettle, lamp] 0 50 (Some ''kit'') =
     Inr [kettle, mug]"
proof -
  have r: "get_products no_engine by_insertion [mug, kettle, lamp] 0 50 (Some ''kit'') =
      Inr [kettle, mug]"
    by code_simp
  have "''kit'' \<noteq> []" by simp
  from category_routes_agree [OF this, of no_engine by_insertion "[mug, kettle, lamp]" 0 50]
  have "get_products_by_category no_engine by_insertion [mug, kettle, lamp] ''kit'' 0 50 =
      Inr [kettle, mug]"
    by (simp only: r)
  with r show ?thesis by (rule conjI [rotated])
qed

end
